theory Spec2Isabelle
  imports Main "HOL-Library.Sublist" "HOL-Library.Word"
begin

section \<open>Strings of the driver\<close>

text \<open>
  A \<open>QString\<close> is modelled as a \<open>string\<close>, one \<open>char\<close> per code unit. The
  driver compares type names with ASCII literals only, so \<open>QString::toLower\<close> is
  modelled on the letters \<open>A\<close> to \<open>Z\<close>; every other code unit is left as it is.
\<close>

definition dquote :: char where
  "dquote = CHR 0x22"

definition dot :: char where
  "dot = CHR ''.''"

definition toLower_char :: "char \<Rightarrow> char" where
  "toLower_char c =
     (case map_of (zip ''ABCDEFGHIJKLMNOPQRSTUVWXYZ'' ''abcdefghijklmnopqrstuvwxyz'') c of
        Some l \<Rightarrow> l
      | None \<Rightarrow> c)"

definition toLower :: "string \<Rightarrow> string" where
  "toLower s = map toLower_char s"

text \<open>\<open>QString::left(n)\<close> and \<open>QString::right(n)\<close>: the whole string when it is shorter.\<close>

definition left :: "nat \<Rightarrow> string \<Rightarrow> string" where
  "left n s = take n s"

definition right :: "nat \<Rightarrow> string \<Rightarrow> string" where
  "right n s = drop (length s - n) s"

text \<open>\<open>QString::replace(QChar, QLatin1String)\<close>: every occurrence of the character.\<close>

definition replace_char :: "char \<Rightarrow> string \<Rightarrow> string \<Rightarrow> string" where
  "replace_char c by s = concat (map (\<lambda>x. if x = c then by else [x]) s)"

text \<open>\<open>QString::remove(QChar)\<close>.\<close>

definition remove_char :: "char \<Rightarrow> string \<Rightarrow> string" where
  "remove_char c s = filter (\<lambda>x. x \<noteq> c) s"

subsection \<open>\<open>_q_escapeIdentifier\<close>\<close>

definition q_escapeIdentifier :: "string \<Rightarrow> string" where
  "q_escapeIdentifier identifier =
     (if identifier \<noteq> [] \<and> left 1 identifier \<noteq> [dquote] \<and> right 1 identifier \<noteq> [dquote]
      then
        (let res = replace_char dquote [dquote, dquote] identifier;
             res = [dquote] @ res @ [dquote];
             res = replace_char dot [dquote, dot, dquote] res
         in res)
      else identifier)"

text \<open>\<open>SQLiteDriver::escapeIdentifier\<close> ignores the identifier type.\<close>

definition escapeIdentifier :: "string \<Rightarrow> 'idtype \<Rightarrow> string" where
  "escapeIdentifier identifier tp = q_escapeIdentifier identifier"

subsection \<open>\<open>qGetColumnType\<close>\<close>

datatype QVariant_Type =
  QVariant_Invalid | QVariant_Int | QVariant_Double | QVariant_ByteArray | QVariant_String

definition qGetColumnType :: "string \<Rightarrow> QVariant_Type" where
  "qGetColumnType tpName =
     (let typeName = toLower tpName in
      if typeName = ''integer'' \<or> typeName = ''int'' then QVariant_Int
      else if typeName = ''double'' \<or> typeName = ''float'' \<or> typeName = ''real''
              \<or> prefix ''numeric'' typeName then QVariant_Double
      else if typeName = ''blob'' then QVariant_ByteArray
      else QVariant_String)"

text \<open>
  The classifier as the specification words it: a semantic type for a declared type
  name that is already in lower case.
\<close>

datatype SemanticType = Integer | Float | Bytes | Text

definition classify_lower :: "string \<Rightarrow> SemanticType" where
  "classify_lower t =
     (if t \<in> {''integer'', ''int''} then Integer
      else if t \<in> {''double'', ''float'', ''real''} \<or> take 7 t = ''numeric'' then Float
      else if t = ''blob'' then Bytes
      else Text)"

fun semantic :: "QVariant_Type \<Rightarrow> SemanticType option" where
  "semantic QVariant_Int = Some Integer"
| "semantic QVariant_Double = Some Float"
| "semantic QVariant_ByteArray = Some Bytes"
| "semantic QVariant_String = Some Text"
| "semantic QVariant_Invalid = None"

text \<open>
  The escaping as the specification words it: the identifier is cut at its dots, every
  segment has its quote characters doubled and is wrapped in quotes, and the segments
  are joined with dots again. An identifier is fully quoted when a quote is at both ends.
\<close>

fun split_dot :: "string \<Rightarrow> string list" where
  "split_dot [] = [[]]"
| "split_dot (x # xs) =
     (if x = dot then [] # split_dot xs
      else (x # hd (split_dot xs)) # tl (split_dot xs))"

fun join_dot :: "string list \<Rightarrow> string" where
  "join_dot [] = []"
| "join_dot (s # ss) = (if ss = [] then s else s @ dot # join_dot ss)"

definition quoted :: "string \<Rightarrow> string" where
  "quoted seg = [dquote] @ replace_char dquote [dquote, dquote] seg @ [dquote]"

definition escape_segments :: "string \<Rightarrow> string" where
  "escape_segments identifier = join_dot (map quoted (split_dot identifier))"

definition fully_quoted :: "string \<Rightarrow> bool" where
  "fully_quoted identifier \<longleftrightarrow> left 1 identifier = [dquote] \<and> right 1 identifier = [dquote]"

section \<open>Values, fields and errors of the SQL layer\<close>

text \<open>
  The Qt value classes the driver builds and inspects, with the members it uses. A
  \<open>double\<close> is carried as its 64 bits; nothing here computes with it.
\<close>

type_synonym double = "64 word"

datatype QVariant =
    QInvalid
  | QNull QVariant_Type
  | QByteArray string
  | QInt int
  | QUInt int
  | QLongLong int
  | QDouble double
  | QString string
  | QOther string

text \<open>
  \<open>QInvalid\<close> is \<open>QVariant()\<close>, \<open>QNull t\<close> a null value of type \<open>t\<close>
  (a null string is \<open>QNull QVariant_String\<close>), and \<open>QOther s\<close> a value of any
  further type with \<open>s\<close> as its \<open>toString()\<close>. \<open>isNull\<close> is
  \<open>QVariant::isNull\<close>.
\<close>

fun isNull :: "QVariant \<Rightarrow> bool" where
  "isNull QInvalid = True"
| "isNull (QNull t) = True"
| "isNull v = False"

datatype ErrorType = NoError | ConnectionError | StatementError | TransactionError | UnknownError

record QSqlError =
  driverText :: string
  databaseText :: string
  errorType :: ErrorType
  number :: int

text \<open>\<open>QSqlError()\<close>, and \<open>QSqlError(driverText, databaseText, type, number = -1)\<close>.\<close>

definition QSqlError_none :: QSqlError where
  "QSqlError_none = \<lparr>driverText = [], databaseText = [], errorType = NoError, number = - 1\<rparr>"

definition QSqlError_new :: "string \<Rightarrow> string \<Rightarrow> ErrorType \<Rightarrow> int \<Rightarrow> QSqlError" where
  "QSqlError_new drv db t n = \<lparr>driverText = drv, databaseText = db, errorType = t, number = n\<rparr>"

definition isValid :: "QSqlError \<Rightarrow> bool" where
  "isValid e \<longleftrightarrow> errorType e \<noteq> NoError"

datatype RequiredStatus = Unknown | Optional | Required

record QSqlField =
  fieldName :: string
  fieldType :: QVariant_Type
  sqlType :: int
  autoValue :: bool
  requiredStatus :: RequiredStatus
  defaultValue :: QVariant

text \<open>\<open>QSqlField(name, type)\<close> with Qt's defaults for the other members.\<close>

definition QSqlField_new :: "string \<Rightarrow> QVariant_Type \<Rightarrow> QSqlField" where
  "QSqlField_new n t =
     \<lparr>fieldName = n, fieldType = t, sqlType = - 1, autoValue = False,
      requiredStatus = Unknown, defaultValue = QInvalid\<rparr>"

definition setRequired :: "bool \<Rightarrow> QSqlField \<Rightarrow> QSqlField" where
  "setRequired r f = f\<lparr>requiredStatus := (if r then Required else Optional)\<rparr>"

section \<open>The engine\<close>

text \<open>
  SQLite is outside the repository. The driver's code is modelled over any engine: a
  record of the C functions it calls, each a function of the engine's state \<open>'e\<close>;
  those that change the engine return the new state beside their result code. A
  statement or connection pointer is \<open>None\<close> when null. Column and placeholder
  counts are naturals (SQLite never answers a negative count). The column readers do
  not change the engine. \<open>sqlite3_column_blob\<close> gives the bytes of the blob, that
  is the pointer together with \<open>sqlite3_column_bytes\<close>, and \<open>sqlite3_column_text16\<close>
  the text with its length. \<open>sqlite3_bind\<close> stands for the family
  \<open>sqlite3_bind_null\<close>, \<open>_blob\<close>, \<open>_int\<close>, \<open>_double\<close>, \<open>_int64\<close>
  and \<open>_text16\<close>, the member chosen by the \<open>bind_arg\<close>. From
  \<open>sqlite3_prepare16_v2\<close> come the result code, the statement and the unconsumed tail
  of the query. The same record carries \<open>QCoreApplication::translate\<close>, which the
  driver wraps around its messages.
\<close>

type_synonym sqlite3_stmt = "nat option"
type_synonym sqlite3_db = "nat option"

datatype bind_arg =
    bind_null
  | bind_blob string
  | bind_int int
  | bind_double double
  | bind_int64 int
  | bind_text16 string bool

record 'e sqlite3 =
  sqlite3_column_count :: "'e \<Rightarrow> sqlite3_stmt \<Rightarrow> nat"
  sqlite3_column_name16 :: "'e \<Rightarrow> sqlite3_stmt \<Rightarrow> nat \<Rightarrow> string"
  sqlite3_column_decltype16 :: "'e \<Rightarrow> sqlite3_stmt \<Rightarrow> nat \<Rightarrow> string"
  sqlite3_column_type :: "'e \<Rightarrow> sqlite3_stmt \<Rightarrow> nat \<Rightarrow> int"
  sqlite3_column_blob :: "'e \<Rightarrow> sqlite3_stmt \<Rightarrow> nat \<Rightarrow> string"
  sqlite3_column_int :: "'e \<Rightarrow> sqlite3_stmt \<Rightarrow> nat \<Rightarrow> int"
  sqlite3_column_int64 :: "'e \<Rightarrow> sqlite3_stmt \<Rightarrow> nat \<Rightarrow> int"
  sqlite3_column_double :: "'e \<Rightarrow> sqlite3_stmt \<Rightarrow> nat \<Rightarrow> double"
  sqlite3_column_text16 :: "'e \<Rightarrow> sqlite3_stmt \<Rightarrow> nat \<Rightarrow> string"
  sqlite3_bind_parameter_count :: "'e \<Rightarrow> sqlite3_stmt \<Rightarrow> nat"
  sqlite3_errmsg16 :: "'e \<Rightarrow> sqlite3_db \<Rightarrow> string"
  sqlite3_step :: "'e \<Rightarrow> sqlite3_stmt \<Rightarrow> int \<times> 'e"
  sqlite3_reset :: "'e \<Rightarrow> sqlite3_stmt \<Rightarrow> int \<times> 'e"
  sqlite3_finalize :: "'e \<Rightarrow> sqlite3_stmt \<Rightarrow> int \<times> 'e"
  sqlite3_bind :: "'e \<Rightarrow> sqlite3_stmt \<Rightarrow> nat \<Rightarrow> bind_arg \<Rightarrow> int \<times> 'e"
  sqlite3_prepare16_v2 :: "'e \<Rightarrow> sqlite3_db \<Rightarrow> string \<Rightarrow> (int \<times> sqlite3_stmt \<times> string option) \<times> 'e"
  sqlite3_close :: "'e \<Rightarrow> sqlite3_db \<Rightarrow> int \<times> 'e"
  translate :: "string \<Rightarrow> string \<Rightarrow> string"

text \<open>Result codes and storage classes of \<open>sqlite3.h\<close>.\<close>

definition SQLITE_OK :: int where "SQLITE_OK = 0"
definition SQLITE_ERROR :: int where "SQLITE_ERROR = 1"
definition SQLITE_BUSY :: int where "SQLITE_BUSY = 5"
definition SQLITE_CONSTRAINT :: int where "SQLITE_CONSTRAINT = 19"
definition SQLITE_MISUSE :: int where "SQLITE_MISUSE = 21"
definition SQLITE_ROW :: int where "SQLITE_ROW = 100"
definition SQLITE_DONE :: int where "SQLITE_DONE = 101"

definition SQLITE_INTEGER :: int where "SQLITE_INTEGER = 1"
definition SQLITE_FLOAT :: int where "SQLITE_FLOAT = 2"
definition SQLITE_TEXT :: int where "SQLITE_TEXT = 3"
definition SQLITE_BLOB :: int where "SQLITE_BLOB = 4"
definition SQLITE_NULL :: int where "SQLITE_NULL = 5"

text \<open>
  The world a cursor runs in: the engine's state and, as a ghost, the list of the
  engine calls made so far that can change it, oldest first. The code never reads the
  list; it is there to count calls.
\<close>

datatype call =
    Step sqlite3_stmt
  | Reset sqlite3_stmt
  | Finalize sqlite3_stmt
  | Bind sqlite3_stmt nat bind_arg
  | Prepare sqlite3_db string
  | Close sqlite3_db

record 'e world =
  engine :: 'e
  calls :: "call list"

definition call_step :: "'e sqlite3 \<Rightarrow> sqlite3_stmt \<Rightarrow> 'e world \<Rightarrow> int \<times> 'e world" where
  "call_step E p w =
     (let (res, e) = sqlite3_step E (engine w) p
      in (res, \<lparr>engine = e, calls = calls w @ [Step p]\<rparr>))"

definition call_reset :: "'e sqlite3 \<Rightarrow> sqlite3_stmt \<Rightarrow> 'e world \<Rightarrow> int \<times> 'e world" where
  "call_reset E p w =
     (let (res, e) = sqlite3_reset E (engine w) p
      in (res, \<lparr>engine = e, calls = calls w @ [Reset p]\<rparr>))"

definition call_finalize :: "'e sqlite3 \<Rightarrow> sqlite3_stmt \<Rightarrow> 'e world \<Rightarrow> int \<times> 'e world" where
  "call_finalize E p w =
     (let (res, e) = sqlite3_finalize E (engine w) p
      in (res, \<lparr>engine = e, calls = calls w @ [Finalize p]\<rparr>))"

definition call_bind ::
  "'e sqlite3 \<Rightarrow> sqlite3_stmt \<Rightarrow> nat \<Rightarrow> bind_arg \<Rightarrow> 'e world \<Rightarrow> int \<times> 'e world" where
  "call_bind E p i a w =
     (let (res, e) = sqlite3_bind E (engine w) p i a
      in (res, \<lparr>engine = e, calls = calls w @ [Bind p i a]\<rparr>))"

definition call_prepare ::
  "'e sqlite3 \<Rightarrow> sqlite3_db \<Rightarrow> string \<Rightarrow> 'e world
    \<Rightarrow> (int \<times> sqlite3_stmt \<times> string option) \<times> 'e world" where
  "call_prepare E db query w =
     (let (r, e) = sqlite3_prepare16_v2 E (engine w) db query
      in (r, \<lparr>engine = e, calls = calls w @ [Prepare db query]\<rparr>))"

definition call_close :: "'e sqlite3 \<Rightarrow> sqlite3_db \<Rightarrow> 'e world \<Rightarrow> int \<times> 'e world" where
  "call_close E db w =
     (let (res, e) = sqlite3_close E (engine w) db
      in (res, \<lparr>engine = e, calls = calls w @ [Close db]\<rparr>))"

text \<open>Counting in the ghost list: the step calls and the bind calls made so far.\<close>

fun is_Step :: "call \<Rightarrow> bool" where
  "is_Step (Step p) = True"
| "is_Step x = False"

fun is_Bind :: "call \<Rightarrow> bool" where
  "is_Bind (Bind p i a) = True"
| "is_Bind x = False"

definition step_count :: "'e world \<Rightarrow> nat" where
  "step_count w = length (filter is_Step (calls w))"

definition bind_count :: "'e world \<Rightarrow> nat" where
  "bind_count w = length (filter is_Bind (calls w))"

subsection \<open>\<open>qMakeError\<close>\<close>

definition qMakeError ::
  "'e sqlite3 \<Rightarrow> 'e \<Rightarrow> sqlite3_db \<Rightarrow> string \<Rightarrow> ErrorType \<Rightarrow> int \<Rightarrow> QSqlError" where
  "qMakeError E e access descr t errorCode =
     QSqlError_new descr (sqlite3_errmsg16 E e access) t errorCode"

section \<open>The cursor: \<open>SQLiteResult\<close> and \<open>SQLiteResultPrivate\<close>\<close>

text \<open>
  One record holds the members of \<open>SQLiteResultPrivate\<close> and the state of the
  \<open>QSqlResult\<close> base object that the driver sets and reads through \<open>q\<close>:
  position, active and select flags, last error, precision policy and bound values.
  The source of \<open>SqlCachedResult\<close> is not among the files. Its \<open>init\<close>,
  \<open>cleanup\<close> and \<open>clearValues\<close> work on the value cache private to that class;
  the calls are recorded in \<open>baseCalls\<close> in the order the driver makes them, and what
  they do to the cache is not modelled. They are taken to leave the members of this
  record alone, the position apart: the theorems below read the position only where the
  driver's own code has set it after the last such call.
\<close>

datatype NumericalPrecisionPolicy =
  LowPrecisionInt32 | LowPrecisionInt64 | LowPrecisionDouble | HighPrecision

datatype base_call = Base_init nat | Base_cleanup | Base_clearValues

record SQLiteResult =
  access :: sqlite3_db
  stmt :: sqlite3_stmt
  skippedStatus :: bool
  skipRow :: bool
  rInf :: "QSqlField list"
  firstRow :: "QVariant list"
  at :: int
  active :: bool
  select :: bool
  lastError :: QSqlError
  numericalPrecisionPolicy :: NumericalPrecisionPolicy
  boundValues :: "QVariant list"
  baseCalls :: "base_call list"

text \<open>\<open>QSql::BeforeFirstRow\<close> and \<open>QSql::AfterLastRow\<close>.\<close>

definition BeforeFirstRow :: int where "BeforeFirstRow = - 1"
definition AfterLastRow :: int where "AfterLastRow = - 2"

definition setLastError :: "QSqlError \<Rightarrow> SQLiteResult \<Rightarrow> SQLiteResult" where
  "setLastError e c = c\<lparr>lastError := e\<rparr>"

definition setAt :: "int \<Rightarrow> SQLiteResult \<Rightarrow> SQLiteResult" where
  "setAt i c = c\<lparr>at := i\<rparr>"

definition setActive :: "bool \<Rightarrow> SQLiteResult \<Rightarrow> SQLiteResult" where
  "setActive b c = c\<lparr>active := b\<rparr>"

definition setSelect :: "bool \<Rightarrow> SQLiteResult \<Rightarrow> SQLiteResult" where
  "setSelect b c = c\<lparr>select := b\<rparr>"

definition base_call :: "base_call \<Rightarrow> SQLiteResult \<Rightarrow> SQLiteResult" where
  "base_call b c = c\<lparr>baseCalls := baseCalls c @ [b]\<rparr>"

subsection \<open>\<open>SQLiteResultPrivate::finalize\<close> and \<open>cleanup\<close>\<close>

definition finalize ::
  "'e sqlite3 \<Rightarrow> SQLiteResult \<times> 'e world \<Rightarrow> SQLiteResult \<times> 'e world" where
  "finalize E cw =
     (let (c, w) = cw in
      if stmt c = None then (c, w)
      else
        (let (res, w) = call_finalize E (stmt c) w
         in (c\<lparr>stmt := None\<rparr>, w)))"

definition cleanup ::
  "'e sqlite3 \<Rightarrow> SQLiteResult \<times> 'e world \<Rightarrow> SQLiteResult \<times> 'e world" where
  "cleanup E cw =
     (let (c, w) = finalize E cw;
          c = c\<lparr>rInf := []\<rparr>;
          c = c\<lparr>skippedStatus := False\<rparr>;
          c = c\<lparr>skipRow := False\<rparr>;
          c = setAt BeforeFirstRow c;
          c = setActive False c;
          c = base_call Base_cleanup c
      in (c, w))"

subsection \<open>\<open>SQLiteResultPrivate::initColumns\<close>\<close>

definition column_field ::
  "'e sqlite3 \<Rightarrow> 'e \<Rightarrow> sqlite3_stmt \<Rightarrow> bool \<Rightarrow> nat \<Rightarrow> QSqlField" where
  "column_field E e p emptyResultset i =
     (let colName = remove_char dquote (sqlite3_column_name16 E e p i);
          typeName = sqlite3_column_decltype16 E e p i;
          stp = (if emptyResultset then - 1 else sqlite3_column_type E e p i);
          fieldType =
            (if typeName \<noteq> [] then qGetColumnType typeName
             else if stp = SQLITE_INTEGER then QVariant_Int
             else if stp = SQLITE_FLOAT then QVariant_Double
             else if stp = SQLITE_BLOB then QVariant_ByteArray
             else if stp = SQLITE_TEXT then QVariant_String
             else QVariant_Invalid)
      in (QSqlField_new colName fieldType)\<lparr>sqlType := stp\<rparr>)"

definition initColumns :: "'e sqlite3 \<Rightarrow> 'e \<Rightarrow> bool \<Rightarrow> SQLiteResult \<Rightarrow> SQLiteResult" where
  "initColumns E e emptyResultset c =
     (let nCols = sqlite3_column_count E e (stmt c) in
      if nCols \<le> 0 then c
      else
        (let c = base_call (Base_init nCols) c
         in c\<lparr>rInf := rInf c @ map (column_field E e (stmt c) emptyResultset) [0..<nCols]\<rparr>))"

subsection \<open>\<open>SQLiteResultPrivate::fetchNext\<close>\<close>

text \<open>
  \<open>values\<close> is a reference parameter. \<open>exec\<close> passes the cursor's own
  \<open>firstRow\<close>, so there the two are one vector (\<open>Own_firstRow\<close>); \<open>gotoNext\<close>
  passes the caller's cache (\<open>Callers vs\<close>). The result carries what the referenced
  vector holds at the end. \<open>QVector::operator[]\<close> outside the vector and a failing
  \<open>Q_ASSERT\<close> end the call in a fault.
\<close>

datatype fault = IndexOutOfRange | AssertFailed

datatype values_ref = Own_firstRow | Callers "QVariant list"

definition get_values :: "values_ref \<Rightarrow> SQLiteResult \<Rightarrow> QVariant list" where
  "get_values r c = (case r of Own_firstRow \<Rightarrow> firstRow c | Callers vs \<Rightarrow> vs)"

definition put_values :: "values_ref \<Rightarrow> QVariant list \<Rightarrow> SQLiteResult \<Rightarrow> SQLiteResult" where
  "put_values r vs c = (case r of Own_firstRow \<Rightarrow> c\<lparr>firstRow := vs\<rparr> | Callers old \<Rightarrow> c)"

definition vset :: "QVariant list \<Rightarrow> int \<Rightarrow> QVariant \<Rightarrow> fault + QVariant list" where
  "vset vs k v =
     (if 0 \<le> k \<and> k < int (length vs) then Inr (vs[nat k := v]) else Inl IndexOutOfRange)"

text \<open>The loops \<open>values[i + idx] = f i\<close> over the given indices \<open>i\<close>.\<close>

fun store_columns ::
  "(nat \<Rightarrow> QVariant) \<Rightarrow> int \<Rightarrow> nat list \<Rightarrow> QVariant list \<Rightarrow> fault + QVariant list" where
  "store_columns f idx [] vs = Inr vs"
| "store_columns f idx (i # rest) vs =
     (case vset vs (int i + idx) (f i) of
        Inl x \<Rightarrow> Inl x
      | Inr vs' \<Rightarrow> store_columns f idx rest vs')"

definition column_value ::
  "'e sqlite3 \<Rightarrow> 'e \<Rightarrow> sqlite3_stmt \<Rightarrow> NumericalPrecisionPolicy \<Rightarrow> nat \<Rightarrow> QVariant" where
  "column_value E e p policy i =
     (let t = sqlite3_column_type E e p i in
      if t = SQLITE_BLOB then QByteArray (sqlite3_column_blob E e p i)
      else if t = SQLITE_INTEGER then QLongLong (sqlite3_column_int64 E e p i)
      else if t = SQLITE_FLOAT then
        (case policy of
           LowPrecisionInt32 \<Rightarrow> QInt (sqlite3_column_int E e p i)
         | LowPrecisionInt64 \<Rightarrow> QLongLong (sqlite3_column_int64 E e p i)
         | LowPrecisionDouble \<Rightarrow> QDouble (sqlite3_column_double E e p i)
         | HighPrecision \<Rightarrow> QDouble (sqlite3_column_double E e p i))
      else if t = SQLITE_NULL then QNull QVariant_String
      else QString (sqlite3_column_text16 E e p i))"

text \<open>
  The opening lines of a fetch that steps: the flag is armed on the initial fetch, and
  \<open>firstRow\<close> is then cleared and resized to the column count.
\<close>

definition begin_fetch :: "'e sqlite3 \<Rightarrow> 'e \<Rightarrow> bool \<Rightarrow> SQLiteResult \<Rightarrow> SQLiteResult" where
  "begin_fetch E e initialFetch c =
     (let c = c\<lparr>skipRow := initialFetch\<rparr> in
      if initialFetch
      then c\<lparr>firstRow := replicate (sqlite3_column_count E e (stmt c)) QInvalid\<rparr>
      else c)"

definition fetchNext ::
  "'e sqlite3 \<Rightarrow> values_ref \<Rightarrow> int \<Rightarrow> bool \<Rightarrow> SQLiteResult \<times> 'e world
    \<Rightarrow> fault + (bool \<times> QVariant list \<times> SQLiteResult \<times> 'e world)" where
  "fetchNext E vref idx initialFetch cw =
     (let (c, w) = cw in
      if skipRow c then
        (if initialFetch then Inl AssertFailed
         else
           (let c = c\<lparr>skipRow := False\<rparr> in
            case store_columns (\<lambda>i. firstRow c ! i) 0 [0..<length (firstRow c)] (get_values vref c) of
              Inl x \<Rightarrow> Inl x
            | Inr vs \<Rightarrow> Inr (skippedStatus c, vs, put_values vref vs c, w)))
      else
        (let c = begin_fetch E (engine w) initialFetch c in
         if stmt c = None then
           (let c = setLastError
                      (QSqlError_new (translate E ''SQLiteResult'' ''Unable to fetch row'')
                         (translate E ''SQLiteResult'' ''No query'') ConnectionError (- 1)) c;
                c = setAt AfterLastRow c
            in Inr (False, get_values vref c, c, w))
         else
           (let (res, w) = call_step E (stmt c) w in
            if res = SQLITE_ROW then
              (let c = (if rInf c = [] then initColumns E (engine w) False c else c) in
               if idx < 0 \<and> \<not> initialFetch then Inr (True, get_values vref c, c, w)
               else
                 (case store_columns
                         (column_value E (engine w) (stmt c) (numericalPrecisionPolicy c))
                         idx [0..<length (rInf c)] (get_values vref c) of
                    Inl x \<Rightarrow> Inl x
                  | Inr vs \<Rightarrow> Inr (True, vs, put_values vref vs c, w)))
            else if res = SQLITE_DONE then
              (let c = (if rInf c = [] then initColumns E (engine w) True c else c);
                   c = setAt AfterLastRow c;
                   (r, w) = call_reset E (stmt c) w
               in Inr (False, get_values vref c, c, w))
            else if res = SQLITE_CONSTRAINT \<or> res = SQLITE_ERROR then
              (let (res, w) = call_reset E (stmt c) w;
                   c = setLastError
                         (qMakeError E (engine w) (access c)
                            (translate E ''SQLiteResult'' ''Unable to fetch row'')
                            ConnectionError res) c;
                   c = setAt AfterLastRow c
               in Inr (False, get_values vref c, c, w))
            else
              (let c = setLastError
                         (qMakeError E (engine w) (access c)
                            (translate E ''SQLiteResult'' ''Unable to fetch row'')
                            ConnectionError res) c;
                   (r, w) = call_reset E (stmt c) w;
                   c = setAt AfterLastRow c
               in Inr (False, get_values vref c, c, w)))))"

text \<open>\<open>SQLiteResult::gotoNext\<close>.\<close>

definition gotoNext ::
  "'e sqlite3 \<Rightarrow> QVariant list \<Rightarrow> int \<Rightarrow> SQLiteResult \<times> 'e world
    \<Rightarrow> fault + (bool \<times> QVariant list \<times> SQLiteResult \<times> 'e world)" where
  "gotoNext E row idx cw = fetchNext E (Callers row) idx False cw"

section \<open>The connection: \<open>SQLiteDriver\<close>\<close>

text \<open>
  The members of \<open>SQLiteDriverPrivate\<close> and the open flags and last error of the
  \<open>QSqlDriver\<close> base object. \<open>results\<close> lists the addresses of the cursors
  created on the connection; the cursors themselves live in a store from addresses to
  cursor objects.
\<close>

record SQLiteDriver =
  drv_access :: sqlite3_db
  results :: "nat list"
  isOpen :: bool
  isOpenError :: bool
  drv_lastError :: QSqlError



subsection \<open>\<open>SQLiteResult::prepare\<close>\<close>

text \<open>
  \<open>QString::trimmed().isEmpty()\<close>: nothing but white space. \<open>isSpace\<close> is
  \<open>QChar::isSpace\<close> on the code units a \<open>char\<close> holds: the space, the controls
  from tab to carriage return, the next-line control and the no-break space.
\<close>

definition isSpace :: "char \<Rightarrow> bool" where
  "isSpace ch \<longleftrightarrow>
     ch \<in> set [CHR '' '', CHR 0x09, CHR 0x0A, CHR 0x0B, CHR 0x0C, CHR 0x0D, CHR 0x85, CHR 0xA0]"

definition trimmed_isEmpty :: "string \<Rightarrow> bool" where
  "trimmed_isEmpty t \<longleftrightarrow> list_all isSpace t"

definition prepare ::
  "'e sqlite3 \<Rightarrow> SQLiteDriver option \<Rightarrow> string \<Rightarrow> SQLiteResult \<times> 'e world
    \<Rightarrow> bool \<times> SQLiteResult \<times> 'e world" where
  "prepare E driver query cw =
     (let (c, w) = cw in
      if driver = None \<or> \<not> isOpen (the driver) \<or> isOpenError (the driver) then (False, c, w)
      else
        (let (c, w) = cleanup E (c, w);
             c = setSelect False c;
             ((res, p, pzTail), w) = call_prepare E (access c) query w;
             c = c\<lparr>stmt := p\<rparr>
         in
         if res \<noteq> SQLITE_OK then
           (let c = setLastError
                      (qMakeError E (engine w) (access c)
                         (translate E ''SQLiteResult'' ''Unable to execute statement'')
                         StatementError res) c;
                (c, w) = finalize E (c, w)
            in (False, c, w))
         else if pzTail \<noteq> None \<and> \<not> trimmed_isEmpty (the pzTail) then
           (let c = setLastError
                      (qMakeError E (engine w) (access c)
                         (translate E ''SQLiteResult''
                            ''Unable to execute multiple statements at a time'')
                         StatementError SQLITE_MISUSE) c;
                (c, w) = finalize E (c, w)
            in (False, c, w))
         else (True, c, w)))"

subsection \<open>\<open>SQLiteResult::exec\<close>\<close>

text \<open>
  The bind call chosen for a value: \<open>bind_null\<close> for a null value, else by the type
  of the value; the flag of \<open>bind_text16\<close> is true for \<open>SQLITE_TRANSIENT\<close> and
  false for \<open>SQLITE_STATIC\<close>.
\<close>

definition bind_arg_of :: "QVariant \<Rightarrow> bind_arg" where
  "bind_arg_of v =
     (if isNull v then bind_null
      else
        (case v of
           QByteArray ba \<Rightarrow> bind_blob ba
         | QInt n \<Rightarrow> bind_int n
         | QDouble x \<Rightarrow> bind_double x
         | QUInt n \<Rightarrow> bind_int64 n
         | QLongLong n \<Rightarrow> bind_int64 n
         | QString str \<Rightarrow> bind_text16 str False
         | QOther str \<Rightarrow> bind_text16 str True
         | QInvalid \<Rightarrow> bind_null
         | QNull t \<Rightarrow> bind_null))"

text \<open>
  The binding loop from position \<open>i\<close> on, over the values still to bind. The result
  is false when a bind failed: the error is set, the statement finalized and \<open>exec\<close>
  returns false.
\<close>

fun bind_values ::
  "'e sqlite3 \<Rightarrow> nat \<Rightarrow> QVariant list \<Rightarrow> SQLiteResult \<times> 'e world
    \<Rightarrow> bool \<times> SQLiteResult \<times> 'e world" where
  "bind_values E i [] cw = (True, cw)"
| "bind_values E i (v # rest) cw =
     (let (c, w) = cw;
          (res, w) = call_bind E (stmt c) (i + 1) (bind_arg_of v) w
      in
      if res \<noteq> SQLITE_OK then
        (let c = setLastError
                   (qMakeError E (engine w) (access c)
                      (translate E ''SQLiteResult'' ''Unable to bind parameters'')
                      StatementError res) c;
             (c, w) = finalize E (c, w)
         in (False, c, w))
      else bind_values E (i + 1) rest (c, w))"

definition exec_lookahead ::
  "'e sqlite3 \<Rightarrow> SQLiteResult \<times> 'e world \<Rightarrow> fault + (bool \<times> SQLiteResult \<times> 'e world)" where
  "exec_lookahead E cw =
     (case fetchNext E Own_firstRow 0 True cw of
        Inl x \<Rightarrow> Inl x
      | Inr (b, vs, c, w) \<Rightarrow>
          (let c = c\<lparr>skippedStatus := b\<rparr> in
           if isValid (lastError c) then
             (let c = setSelect False c; c = setActive False c in Inr (False, c, w))
           else
             (let c = setSelect (rInf c \<noteq> []) c; c = setActive True c in Inr (True, c, w))))"

definition exec ::
  "'e sqlite3 \<Rightarrow> SQLiteResult \<times> 'e world \<Rightarrow> fault + (bool \<times> SQLiteResult \<times> 'e world)" where
  "exec E cw =
     (let (c, w) = cw;
          values = boundValues c;
          c = c\<lparr>skippedStatus := False\<rparr>;
          c = c\<lparr>skipRow := False\<rparr>;
          c = c\<lparr>rInf := []\<rparr>;
          c = base_call Base_clearValues c;
          c = setLastError QSqlError_none c;
          (res, w) = call_reset E (stmt c) w
      in
      if res \<noteq> SQLITE_OK then
        (let c = setLastError
                   (qMakeError E (engine w) (access c)
                      (translate E ''SQLiteResult'' ''Unable to reset statement'')
                      StatementError res) c;
             (c, w) = finalize E (c, w)
         in Inr (False, c, w))
      else
        (let paramCount = sqlite3_bind_parameter_count E (engine w) (stmt c) in
         if paramCount = length values then
           (let (ok, c, w) = bind_values E 0 values (c, w) in
            if ok then exec_lookahead E (c, w) else Inr (False, c, w))
         else
           (let c = setLastError
                      (QSqlError_new (translate E ''SQLiteResult'' ''Parameter count mismatch'')
                         [] StatementError (- 1)) c
            in Inr (False, c, w))))"



subsection \<open>\<open>SQLiteDriver::close\<close>\<close>



subsection \<open>\<open>qGetTableInfo\<close> and \<open>SQLiteDriver::primaryIndex\<close>\<close>

text \<open>
  A row of \<open>PRAGMA table_info\<close> as the loop reads it: columns 1 to 5 of the result.
  The query object is a parameter: it answers the text of a query with the rows that
  \<open>q.next()\<close> walks through, none when the query fails.
\<close>

record table_info_row =
  ti_name :: string
  ti_type :: string
  ti_notnull :: int
  ti_dflt_value :: QVariant
  ti_pk :: int

definition indexOf :: "char \<Rightarrow> string \<Rightarrow> int" where
  "indexOf ch s = (if ch \<in> set s then int (length (takeWhile (\<lambda>x. x \<noteq> ch) s)) else - 1)"

definition mid :: "nat \<Rightarrow> string \<Rightarrow> string" where
  "mid n s = drop n s"

definition table_info_query :: "string \<Rightarrow> string" where
  "table_info_query tableName =
     (let indexOfSeparator = indexOf dot tableName;
          schema = (if indexOfSeparator > - 1 then left (nat indexOfSeparator) tableName @ [dot] else []);
          table = (if indexOfSeparator > - 1 then mid (nat (indexOfSeparator + 1)) tableName
                   else tableName)
      in ''PRAGMA '' @ schema @ ''table_info ('' @ q_escapeIdentifier table @ '')'')"

definition table_info_field :: "table_info_row \<Rightarrow> QSqlField" where
  "table_info_field r =
     (let isPk = (ti_pk r \<noteq> 0);
          typeName = toLower (ti_type r);
          fld = QSqlField_new (ti_name r) (qGetColumnType typeName);
          fld = (if isPk \<and> typeName = ''integer'' then fld\<lparr>autoValue := True\<rparr> else fld);
          fld = setRequired (ti_notnull r \<noteq> 0) fld;
          fld = fld\<lparr>defaultValue := ti_dflt_value r\<rparr>
      in fld)"

fun table_info_loop :: "bool \<Rightarrow> table_info_row list \<Rightarrow> QSqlField list \<Rightarrow> QSqlField list" where
  "table_info_loop onlyPIndex [] ind = ind"
| "table_info_loop onlyPIndex (r # rows) ind =
     (if onlyPIndex \<and> \<not> (ti_pk r \<noteq> 0) then table_info_loop onlyPIndex rows ind
      else table_info_loop onlyPIndex rows (ind @ [table_info_field r]))"

definition qGetTableInfo ::
  "(string \<Rightarrow> table_info_row list) \<Rightarrow> string \<Rightarrow> bool \<Rightarrow> QSqlField list" where
  "qGetTableInfo q tableName onlyPIndex =
     table_info_loop onlyPIndex (q (table_info_query tableName)) []"

text \<open>\<open>QSqlDriver::isIdentifierEscaped\<close> and \<open>QSqlDriver::stripDelimiters\<close>.\<close>

definition isIdentifierEscaped :: "string \<Rightarrow> bool" where
  "isIdentifierEscaped identifier \<longleftrightarrow>
     length identifier > 2 \<and> left 1 identifier = [dquote] \<and> right 1 identifier = [dquote]"

definition stripDelimiters :: "string \<Rightarrow> string" where
  "stripDelimiters identifier =
     (if isIdentifierEscaped identifier then butlast (mid 1 identifier) else identifier)"

definition primaryIndex ::
  "(string \<Rightarrow> table_info_row list) \<Rightarrow> SQLiteDriver \<Rightarrow> string \<Rightarrow> QSqlField list" where
  "primaryIndex q d tblname =
     (if \<not> isOpen d then []
      else
        (let table = (if isIdentifierEscaped tblname then stripDelimiters tblname else tblname)
         in qGetTableInfo q table True))"

section \<open>A scripted engine\<close>

text \<open>
  An engine for concrete runs. Its state is a script: the result codes the coming
  \<open>sqlite3_step\<close> calls return (then \<open>SQLITE_DONE\<close>), the declared types of
  the result columns, the number of placeholders and the codes that reset and close
  return. Every column is named \<open>c\<close> and holds the integer 7.
\<close>

record script =
  steps :: "int list"
  decltypes :: "string list"
  placeholders :: nat
  reset_code :: int
  close_code :: int

definition scripted :: "script sqlite3" where
  "scripted =
     \<lparr>sqlite3_column_count = (\<lambda>e p. if p = None then 0 else length (decltypes e)),
      sqlite3_column_name16 = (\<lambda>e p i. ''c''),
      sqlite3_column_decltype16 = (\<lambda>e p i. if i < length (decltypes e) then decltypes e ! i else []),
      sqlite3_column_type = (\<lambda>e p i. SQLITE_INTEGER),
      sqlite3_column_blob = (\<lambda>e p i. []),
      sqlite3_column_int = (\<lambda>e p i. 7),
      sqlite3_column_int64 = (\<lambda>e p i. 7),
      sqlite3_column_double = (\<lambda>e p i. 0),
      sqlite3_column_text16 = (\<lambda>e p i. ''7''),
      sqlite3_bind_parameter_count = (\<lambda>e p. if p = None then 0 else placeholders e),
      sqlite3_errmsg16 = (\<lambda>e db. ''engine message''),
      sqlite3_step = (\<lambda>e p. case steps e of [] \<Rightarrow> (SQLITE_DONE, e)
                              | r # rs \<Rightarrow> (r, e\<lparr>steps := rs\<rparr>)),
      sqlite3_reset = (\<lambda>e p. (reset_code e, e)),
      sqlite3_finalize = (\<lambda>e p. (SQLITE_OK, e)),
      sqlite3_bind = (\<lambda>e p i a. (SQLITE_OK, e)),
      sqlite3_prepare16_v2 = (\<lambda>e db query. ((SQLITE_OK, Some 0, None), e)),
      sqlite3_close = (\<lambda>e db. (close_code e, e)),
      translate = (\<lambda>context sourceText. sourceText)\<rparr>"

definition script0 :: script where
  "script0 = \<lparr>steps = [], decltypes = [], placeholders = 0, reset_code = 0, close_code = 0\<rparr>"

definition world0 :: "script \<Rightarrow> script world" where
  "world0 e = \<lparr>engine = e, calls = []\<rparr>"

text \<open>A cursor as its constructor leaves it, on connection 0, with a statement or none.\<close>

definition cursor0 :: "sqlite3_stmt \<Rightarrow> SQLiteResult" where
  "cursor0 p =
     \<lparr>access = Some 0, stmt = p, skippedStatus = False, skipRow = False, rInf = [],
      firstRow = [], at = BeforeFirstRow, active = False, select = False,
      lastError = QSqlError_none, numericalPrecisionPolicy = LowPrecisionDouble,
      boundValues = [], baseCalls = []\<rparr>"

text \<open>A primary-key row of the table-info query, with a name and a declared type.\<close>

definition pk_row :: "string \<Rightarrow> string \<Rightarrow> table_info_row" where
  "pk_row n t = \<lparr>ti_name = n, ti_type = t, ti_notnull = 0, ti_dflt_value = QInvalid, ti_pk = 1\<rparr>"

text \<open>
  The column descriptor the specification gives for a result without rows: the name
  without quote characters, the type inferred from the declared type name alone
  (invalid when there is none), and the invalid marker \<open>-1\<close> as storage-class hint.
\<close>

definition declared_field :: "'e sqlite3 \<Rightarrow> 'e \<Rightarrow> sqlite3_stmt \<Rightarrow> nat \<Rightarrow> QSqlField" where
  "declared_field E e p i =
     \<lparr>fieldName = remove_char dquote (sqlite3_column_name16 E e p i),
      fieldType = (if sqlite3_column_decltype16 E e p i = [] then QVariant_Invalid
                   else qGetColumnType (sqlite3_column_decltype16 E e p i)),
      sqlType = - 1, autoValue = False, requiredStatus = Unknown, defaultValue = QInvalid\<rparr>"

text \<open>Scripts and objects of the concrete runs.\<close>

definition one_row :: script where
  "one_row = script0\<lparr>steps := [SQLITE_ROW], decltypes := [''INTEGER'']\<rparr>"

definition closed_driver :: SQLiteDriver where
  "closed_driver = \<lparr>drv_access = None, results = [], isOpen = False, isOpenError = False,
     drv_lastError = QSqlError_none\<rparr>"

definition failing_reset :: script where
  "failing_reset = script0\<lparr>placeholders := 1, reset_code := SQLITE_ERROR\<rparr>"

definition failing_step :: script where
  "failing_step = script0\<lparr>steps := [SQLITE_ERROR]\<rparr>"

definition no_rows :: script where
  "no_rows = script0\<lparr>decltypes := [''INTEGER'', ''TEXT'']\<rparr>"





section \<open>Properties of the string functions\<close>

lemma toLower_char_idem: "toLower_char (toLower_char c) = toLower_char c"
  by (simp add: toLower_char_def)

lemma toLower_idem: "toLower (toLower s) = toLower s"
  by (simp add: toLower_def toLower_char_idem)

lemma prefix_numeric: "prefix ''numeric'' t \<longleftrightarrow> take 7 t = ''numeric''"
proof
  assume "prefix ''numeric'' t"
  then obtain r where "t = ''numeric'' @ r" by (auto simp: prefix_def)
  then show "take 7 t = ''numeric''" by simp
next
  assume "take 7 t = ''numeric''"
  then have "t = ''numeric'' @ drop 7 t" by (metis append_take_drop_id)
  then show "prefix ''numeric'' t" by (metis prefixI)
qed

text \<open>
  C2. The declared-type classifier is total and case-insensitive: whatever the input,
  it lower-cases the name and answers Integer for integer and int, Float for double,
  float, real and every name that starts with numeric, Bytes for blob, and Text for
  everything else, the empty name included. It has no error result: its value is always
  one of these four types. Lower-casing the input first does not change the answer.
\<close>

theorem qGetColumnType_classify:
  "semantic (qGetColumnType tpName) = Some (classify_lower (toLower tpName))
   \<and> qGetColumnType (toLower tpName) = qGetColumnType tpName
   \<and> qGetColumnType [] = QVariant_String"
  by (simp add: qGetColumnType_def classify_lower_def toLower_idem prefix_numeric Let_def)
    (simp add: toLower_def)

theorem qGetColumnType_classify_witness:
  "qGetColumnType ''INTEGER'' = QVariant_Int \<and> qGetColumnType ''Int'' = QVariant_Int
   \<and> qGetColumnType ''Numeric(10,2)'' = QVariant_Double \<and> qGetColumnType ''REAL'' = QVariant_Double
   \<and> qGetColumnType ''BLOB'' = QVariant_ByteArray \<and> qGetColumnType ''varchar(20)'' = QVariant_String
   \<and> qGetColumnType ''integer'' = qGetColumnType ''INTEGER''"
  using qGetColumnType_classify [of "''INTEGER''"] qGetColumnType_classify [of "''Int''"]
    qGetColumnType_classify [of "''Numeric(10,2)''"] qGetColumnType_classify [of "''REAL''"]
    qGetColumnType_classify [of "''BLOB''"] qGetColumnType_classify [of "''varchar(20)''"]
  by (simp add: qGetColumnType_def toLower_def toLower_char_def)

section \<open>Identifier escaping\<close>

lemma dquote_neq_dot: "dquote \<noteq> dot" "dot \<noteq> dquote"
  by (simp_all add: dquote_def dot_def)

lemma split_dot_nonempty: "split_dot s \<noteq> []"
  by (cases s) simp_all

lemma replace_char_Nil: "replace_char c r [] = []"
  by (simp add: replace_char_def)

lemma replace_char_Cons:
  "replace_char c r (x # xs) = (if x = c then r else [x]) @ replace_char c r xs"
  by (simp add: replace_char_def)

lemma replace_char_append:
  "replace_char c r (xs @ ys) = replace_char c r xs @ replace_char c r ys"
  by (simp add: replace_char_def)

lemma join_quoted_split:
  "join_dot (map quoted (split_dot s)) =
     [dquote] @ replace_char dot [dquote, dot, dquote] (replace_char dquote [dquote, dquote] s) @ [dquote]"
proof (induction s)
  case Nil
  then show ?case by (simp add: quoted_def replace_char_Nil)
next
  case (Cons x xs)
  obtain h t where ht: "split_dot xs = h # t"
    using split_dot_nonempty [of xs] by (cases "split_dot xs") auto
  show ?case
  proof (cases "x = dot")
    case True
    then show ?thesis using Cons ht
      by (simp add: replace_char_Cons replace_char_Nil quoted_def dquote_neq_dot)
  next
    case False
    have "join_dot (map quoted (split_dot (x # xs))) = join_dot (quoted (x # h) # map quoted t)"
      using False ht by simp
    also have "\<dots> = dquote # (if x = dquote then [dquote, dquote] else [x])
                       @ tl (join_dot (quoted h # map quoted t))"
      by (simp add: quoted_def replace_char_Cons)
    also have "join_dot (quoted h # map quoted t) = join_dot (map quoted (split_dot xs))"
      using ht by simp
    finally show ?thesis using Cons False
      by (simp add: replace_char_Cons replace_char_append replace_char_Nil dquote_neq_dot)
  qed
qed

lemma q_escapeIdentifier_escaping:
  assumes "identifier \<noteq> []" "left 1 identifier \<noteq> [dquote]" "right 1 identifier \<noteq> [dquote]"
  shows "q_escapeIdentifier identifier =
     [dquote] @ replace_char dot [dquote, dot, dquote] (replace_char dquote [dquote, dquote] identifier) @ [dquote]"
  using assms
  by (simp add: q_escapeIdentifier_def Let_def replace_char_Cons replace_char_append
      replace_char_Nil dquote_neq_dot)

lemma escaped_ends:
  "left 1 ([dquote] @ s @ [dquote]) = [dquote]" "right 1 ([dquote] @ s @ [dquote]) = [dquote]"
  by (simp_all add: left_def right_def)

lemma q_escapeIdentifier_unchanged:
  "identifier = [] \<or> left 1 identifier = [dquote] \<or> right 1 identifier = [dquote]
    \<Longrightarrow> q_escapeIdentifier identifier = identifier"
  by (auto simp: q_escapeIdentifier_def)

text \<open>
  C7, as the specification states it, fails: an identifier that begins with a quote
  and does not end with one is not fully quoted, yet it is returned unchanged instead
  of having its quote doubled and its segment wrapped.
\<close>

theorem escapeIdentifier_not_segments_counterexample:
  "\<not> fully_quoted [dquote, CHR ''a'']
   \<and> escapeIdentifier [dquote, CHR ''a''] () = [dquote, CHR ''a'']
   \<and> escape_segments [dquote, CHR ''a''] = [dquote, dquote, dquote, CHR ''a'', dquote]
   \<and> escapeIdentifier [dquote, CHR ''a''] () \<noteq> escape_segments [dquote, CHR ''a'']"
  by (simp add: fully_quoted_def escapeIdentifier_def q_escapeIdentifier_def left_def right_def
      escape_segments_def quoted_def replace_char_def dquote_def dot_def)

text \<open>
  C7, amended. escapeIdentifier doubles every embedded quote character and wraps each
  dot-separated segment of the identifier in quotes when the identifier is not empty and
  neither begins nor ends with a quote character; the empty identifier and every
  identifier that begins or ends with a quote character is returned unchanged. So a.b
  becomes "a"."b", and an identifier quoted at both ends stays as it is.
\<close>

theorem escapeIdentifier_segments:
  "(identifier \<noteq> [] \<and> left 1 identifier \<noteq> [dquote] \<and> right 1 identifier \<noteq> [dquote]
      \<longrightarrow> escapeIdentifier identifier tp = escape_segments identifier)
   \<and> (identifier = [] \<or> left 1 identifier = [dquote] \<or> right 1 identifier = [dquote]
      \<longrightarrow> escapeIdentifier identifier tp = identifier)"
  by (auto simp: escapeIdentifier_def escape_segments_def join_quoted_split
      q_escapeIdentifier_escaping q_escapeIdentifier_unchanged)

theorem escapeIdentifier_segments_witness:
  "escapeIdentifier ''a.b'' () = [dquote, CHR ''a'', dquote, dot, dquote, CHR ''b'', dquote]
   \<and> escapeIdentifier [dquote, CHR ''a'', CHR ''.'', CHR ''b'', dquote] ()
       = [dquote, CHR ''a'', CHR ''.'', CHR ''b'', dquote]
   \<and> escapeIdentifier [CHR ''a'', dquote] () = [CHR ''a'', dquote]
   \<and> escapeIdentifier [] () = []"
proof -
  have a: "''a.b'' \<noteq> [] \<and> left 1 ''a.b'' \<noteq> [dquote] \<and> right 1 ''a.b'' \<noteq> [dquote]"
    by (simp add: left_def right_def dquote_def)
  have b: "escape_segments ''a.b'' = [dquote, CHR ''a'', dquote, dot, dquote, CHR ''b'', dquote]"
    by (simp add: escape_segments_def quoted_def replace_char_def dquote_def dot_def)
  have c: "left 1 [dquote, CHR ''a'', CHR ''.'', CHR ''b'', dquote] = [dquote]"
    by (simp add: left_def)
  have d: "right 1 [CHR ''a'', dquote] = [dquote]"
    by (simp add: right_def)
  show ?thesis
    using escapeIdentifier_segments [of "''a.b''" "()"]
      escapeIdentifier_segments [of "[dquote, CHR ''a'', CHR ''.'', CHR ''b'', dquote]" "()"]
      escapeIdentifier_segments [of "[CHR ''a'', dquote]" "()"]
      escapeIdentifier_segments [of "[]" "()"] a b c d
    by simp
qed

text \<open>
  C10. \<open>_q_escapeIdentifier\<close> is idempotent: applying it twice gives what applying it
  once gives, for every input. The empty string is returned unchanged; every identifier
  that begins with a quote character or ends with one is returned unchanged; and every
  output produced by the escaping branch begins and ends with a quote character.
\<close>

theorem q_escapeIdentifier_idempotent:
  "q_escapeIdentifier (q_escapeIdentifier s) = q_escapeIdentifier s
   \<and> q_escapeIdentifier [] = []
   \<and> (left 1 s = [dquote] \<or> right 1 s = [dquote] \<longrightarrow> q_escapeIdentifier s = s)
   \<and> (s \<noteq> [] \<and> left 1 s \<noteq> [dquote] \<and> right 1 s \<noteq> [dquote]
      \<longrightarrow> left 1 (q_escapeIdentifier s) = [dquote] \<and> right 1 (q_escapeIdentifier s) = [dquote])"
proof -
  have ends: "left 1 (q_escapeIdentifier s) = [dquote] \<and> right 1 (q_escapeIdentifier s) = [dquote]"
    if "s \<noteq> []" "left 1 s \<noteq> [dquote]" "right 1 s \<noteq> [dquote]"
    using q_escapeIdentifier_escaping [OF that] escaped_ends by simp
  have "q_escapeIdentifier (q_escapeIdentifier s) = q_escapeIdentifier s"
  proof (cases "s \<noteq> [] \<and> left 1 s \<noteq> [dquote] \<and> right 1 s \<noteq> [dquote]")
    case True
    then show ?thesis using ends q_escapeIdentifier_unchanged by blast
  next
    case False
    then have "q_escapeIdentifier s = s" using q_escapeIdentifier_unchanged by blast
    then show ?thesis by simp
  qed
  then show ?thesis using q_escapeIdentifier_unchanged ends by blast
qed

theorem q_escapeIdentifier_idempotent_witness:
  "q_escapeIdentifier (q_escapeIdentifier ''a.b'') = q_escapeIdentifier ''a.b''
   \<and> q_escapeIdentifier [dquote, CHR ''a''] = [dquote, CHR ''a'']
   \<and> left 1 (q_escapeIdentifier ''a.b'') = [dquote] \<and> right 1 (q_escapeIdentifier ''a.b'') = [dquote]"
proof -
  have a: "''a.b'' \<noteq> [] \<and> left 1 ''a.b'' \<noteq> [dquote] \<and> right 1 ''a.b'' \<noteq> [dquote]"
    by (simp add: left_def right_def dquote_def)
  have b: "left 1 [dquote, CHR ''a''] = [dquote]"
    by (simp add: left_def)
  show ?thesis
    using q_escapeIdentifier_idempotent [of "''a.b''"]
      q_escapeIdentifier_idempotent [of "[dquote, CHR ''a'']"] a b
    by simp
qed


section \<open>Primary-key introspection\<close>

lemma table_info_loop_eq:
  "table_info_loop onlyPIndex rows ind =
     ind @ map table_info_field (filter (\<lambda>r. \<not> onlyPIndex \<or> ti_pk r \<noteq> 0) rows)"
  by (induction rows arbitrary: ind) auto

lemma autoValue_table_info_field:
  "autoValue (table_info_field r) \<longleftrightarrow> ti_pk r \<noteq> 0 \<and> toLower (ti_type r) = ''integer''"
  by (simp add: table_info_field_def Let_def setRequired_def QSqlField_new_def)

text \<open>
  C9. The primary-key introspection flags a primary-key column as auto-generated if and
  only if its declared type name, lower-cased, is exactly integer. On an open connection
  the fields of \<open>primaryIndex\<close> are those of the primary-key rows of the table-info
  query, in order, each flagged exactly when its type name is integer in any letter
  case; a primary-key column declared int, or with any other name, is not flagged.
\<close>

theorem primaryIndex_autoValue:
  "(isOpen d \<longrightarrow>
      map autoValue (primaryIndex q d tblname) =
        map (\<lambda>r. toLower (ti_type r) = ''integer'')
          (filter (\<lambda>r. ti_pk r \<noteq> 0)
             (q (table_info_query
                   (if isIdentifierEscaped tblname then stripDelimiters tblname else tblname)))))
   \<and> (ti_pk r \<noteq> 0 \<longrightarrow>
        (autoValue (table_info_field r) \<longleftrightarrow> toLower (ti_type r) = ''integer''))
   \<and> (toLower (ti_type r) = ''int'' \<longrightarrow> \<not> autoValue (table_info_field r))"
  by (simp add: primaryIndex_def qGetTableInfo_def table_info_loop_eq
      autoValue_table_info_field Let_def cong: map_cong)

theorem primaryIndex_autoValue_witness:
  "map autoValue
     (primaryIndex (\<lambda>query. [pk_row ''a'' ''INTEGER'', pk_row ''b'' ''INT'', pk_row ''c'' ''Integer''])
        \<lparr>drv_access = Some 0, results = [], isOpen = True, isOpenError = False,
         drv_lastError = QSqlError_none\<rparr> ''t'')
     = [True, False, True]
   \<and> autoValue (table_info_field (pk_row ''id'' ''INTEGER''))
   \<and> \<not> autoValue (table_info_field (pk_row ''id'' ''INT''))"
  using primaryIndex_autoValue
    [of "\<lparr>drv_access = Some 0, results = [], isOpen = True, isOpenError = False,
          drv_lastError = QSqlError_none\<rparr>"
        "\<lambda>query. [pk_row ''a'' ''INTEGER'', pk_row ''b'' ''INT'', pk_row ''c'' ''Integer'']"
        "''t''" "pk_row ''id'' ''INTEGER''"]
    primaryIndex_autoValue
    [of "\<lparr>drv_access = Some 0, results = [], isOpen = True, isOpenError = False,
          drv_lastError = QSqlError_none\<rparr>"
        "\<lambda>query. []" "''t''" "pk_row ''id'' ''INT''"]
  by (simp add: pk_row_def toLower_def toLower_char_def)

section \<open>The engine calls and the parts of a fetch\<close>

lemma call_simps:
  "call_step E p w = (fst (sqlite3_step E (engine w) p),
     \<lparr>engine = snd (sqlite3_step E (engine w) p), calls = calls w @ [Step p]\<rparr>)"
  "call_reset E p w = (fst (sqlite3_reset E (engine w) p),
     \<lparr>engine = snd (sqlite3_reset E (engine w) p), calls = calls w @ [Reset p]\<rparr>)"
  "call_finalize E p w = (fst (sqlite3_finalize E (engine w) p),
     \<lparr>engine = snd (sqlite3_finalize E (engine w) p), calls = calls w @ [Finalize p]\<rparr>)"
  "call_bind E p i a w = (fst (sqlite3_bind E (engine w) p i a),
     \<lparr>engine = snd (sqlite3_bind E (engine w) p i a), calls = calls w @ [Bind p i a]\<rparr>)"
  "call_close E db w = (fst (sqlite3_close E (engine w) db),
     \<lparr>engine = snd (sqlite3_close E (engine w) db), calls = calls w @ [Close db]\<rparr>)"
  by (simp_all add: call_step_def call_reset_def call_finalize_def call_bind_def call_close_def
      split_def Let_def)

lemma finalize_simps:
  "stmt c = None \<Longrightarrow> finalize E (c, w) = (c, w)"
  "stmt c \<noteq> None \<Longrightarrow> finalize E (c, w) = (c\<lparr>stmt := None\<rparr>, snd (call_finalize E (stmt c) w))"
  by (auto simp: finalize_def split_def Let_def)

lemma finalize_counts:
  "step_count (snd (finalize E (c, w))) = step_count w"
  "bind_count (snd (finalize E (c, w))) = bind_count w"
  by (cases "stmt c = None"; simp add: finalize_simps call_simps step_count_def bind_count_def)+

lemma finalize_cursor:
  "fst (finalize E (c, w)) = c\<lparr>stmt := None\<rparr>"
  by (cases "stmt c = None"; cases c; simp add: finalize_simps)

lemma begin_fetch_simps [simp]:
  "stmt (begin_fetch E e i c) = stmt c"
  "rInf (begin_fetch E e i c) = rInf c"
  "access (begin_fetch E e i c) = access c"
  "skipRow (begin_fetch E e i c) = i"
  "lastError (begin_fetch E e i c) = lastError c"
  "numericalPrecisionPolicy (begin_fetch E e i c) = numericalPrecisionPolicy c"
  by (simp_all add: begin_fetch_def Let_def)

lemma setAt_simps [simp]:
  "stmt (setAt i c) = stmt c" "rInf (setAt i c) = rInf c" "access (setAt i c) = access c"
  "lastError (setAt i c) = lastError c" "skipRow (setAt i c) = skipRow c"
  "skippedStatus (setAt i c) = skippedStatus c" "firstRow (setAt i c) = firstRow c"
  "at (setAt i c) = i"
  by (simp_all add: setAt_def)

lemma setLastError_simps [simp]:
  "stmt (setLastError x c) = stmt c" "rInf (setLastError x c) = rInf c"
  "access (setLastError x c) = access c"
  "lastError (setLastError x c) = x" "skipRow (setLastError x c) = skipRow c"
  "skippedStatus (setLastError x c) = skippedStatus c" "firstRow (setLastError x c) = firstRow c"
  "at (setLastError x c) = at c"
  by (simp_all add: setLastError_def)

lemma initColumns_simps [simp]:
  "stmt (initColumns E e b c) = stmt c" "access (initColumns E e b c) = access c"
  "lastError (initColumns E e b c) = lastError c" "skipRow (initColumns E e b c) = skipRow c"
  "skippedStatus (initColumns E e b c) = skippedStatus c"
  "firstRow (initColumns E e b c) = firstRow c" "at (initColumns E e b c) = at c"
  "numericalPrecisionPolicy (initColumns E e b c) = numericalPrecisionPolicy c"
  by (simp_all add: initColumns_def Let_def base_call_def)

lemma get_values_skipRow [simp]: "get_values vref (c\<lparr>skipRow := b\<rparr>) = get_values vref c"
  by (simp add: get_values_def split: values_ref.splits)


lemma fetchNext_no_query:
  "\<not> skipRow c \<Longrightarrow> stmt c = None \<Longrightarrow> fetchNext E vref idx init (c, w) =
     (let c1 = setAt AfterLastRow (setLastError
                (QSqlError_new (translate E ''SQLiteResult'' ''Unable to fetch row'')
                   (translate E ''SQLiteResult'' ''No query'') ConnectionError (- 1))
                (begin_fetch E (engine w) init c))
      in Inr (False, get_values vref c1, c1, w))"
  by (simp add: fetchNext_def Let_def)

lemma fetchNext_done:
  "\<not> skipRow c \<Longrightarrow> stmt c = Some p \<Longrightarrow> fst (sqlite3_step E (engine w) (stmt c)) = SQLITE_DONE \<Longrightarrow>
   fetchNext E vref idx init (c, w) =
     (let c1 = begin_fetch E (engine w) init c;
          w1 = snd (call_step E (stmt c) w);
          c2 = setAt AfterLastRow (if rInf c = [] then initColumns E (engine w1) True c1 else c1)
      in Inr (False, get_values vref c2, c2, snd (call_reset E (stmt c) w1)))"
  by (simp add: fetchNext_def Let_def split_def call_simps SQLITE_DONE_def SQLITE_ROW_def SQLITE_CONSTRAINT_def SQLITE_ERROR_def cong: sum.case_cong)

lemma fetchNext_error:
  "\<not> skipRow c \<Longrightarrow> stmt c = Some p \<Longrightarrow>
   fst (sqlite3_step E (engine w) (stmt c)) = SQLITE_CONSTRAINT
     \<or> fst (sqlite3_step E (engine w) (stmt c)) = SQLITE_ERROR \<Longrightarrow>
   fetchNext E vref idx init (c, w) =
     (let c1 = begin_fetch E (engine w) init c;
          w1 = snd (call_step E (stmt c) w);
          r = call_reset E (stmt c) w1;
          c2 = setAt AfterLastRow (setLastError
                 (qMakeError E (engine (snd r)) (access c)
                    (translate E ''SQLiteResult'' ''Unable to fetch row'') ConnectionError (fst r)) c1)
      in Inr (False, get_values vref c2, c2, snd r))"
  by (elim disjE; simp add: fetchNext_def Let_def split_def call_simps SQLITE_DONE_def SQLITE_ROW_def SQLITE_CONSTRAINT_def SQLITE_ERROR_def)

lemma fetchNext_other:
  "\<not> skipRow c \<Longrightarrow> stmt c = Some p \<Longrightarrow>
   fst (sqlite3_step E (engine w) (stmt c)) \<notin> {SQLITE_ROW, SQLITE_DONE, SQLITE_CONSTRAINT, SQLITE_ERROR} \<Longrightarrow>
   fetchNext E vref idx init (c, w) =
     (let c1 = begin_fetch E (engine w) init c;
          w1 = snd (call_step E (stmt c) w);
          c2 = setAt AfterLastRow (setLastError
                 (qMakeError E (engine w1) (access c)
                    (translate E ''SQLiteResult'' ''Unable to fetch row'') ConnectionError
                    (fst (sqlite3_step E (engine w) (stmt c)))) c1)
      in Inr (False, get_values vref c2, c2, snd (call_reset E (stmt c) w1)))"
  by (simp add: fetchNext_def Let_def split_def call_simps cong: sum.case_cong)





lemma step_count_simps [simp]:
  "step_count (snd (call_step E p w)) = Suc (step_count w)"
  "step_count (snd (call_reset E p w)) = step_count w"
  "step_count (snd (call_bind E p i a w)) = step_count w"
  "step_count (snd (call_finalize E p w)) = step_count w"
  by (simp_all add: call_simps step_count_def)

lemma bind_count_simps [simp]:
  "bind_count (snd (call_step E p w)) = bind_count w"
  "bind_count (snd (call_reset E p w)) = bind_count w"
  "bind_count (snd (call_bind E p i a w)) = Suc (bind_count w)"
  "bind_count (snd (call_finalize E p w)) = bind_count w"
  by (simp_all add: call_simps bind_count_def)


lemma put_values_simps [simp]:
  "stmt (put_values r vs c) = stmt c" "rInf (put_values r vs c) = rInf c"
  "lastError (put_values r vs c) = lastError c" "skipRow (put_values r vs c) = skipRow c"
  "at (put_values r vs c) = at c" "skippedStatus (put_values r vs c) = skippedStatus c"
  by (simp_all add: put_values_def split: values_ref.splits)


section \<open>The lookahead row\<close>

lemma base_call_simps [simp]:
  "stmt (base_call b c) = stmt c" "rInf (base_call b c) = rInf c"
  "access (base_call b c) = access c" "lastError (base_call b c) = lastError c"
  "skipRow (base_call b c) = skipRow c" "skippedStatus (base_call b c) = skippedStatus c"
  "firstRow (base_call b c) = firstRow c" "at (base_call b c) = at c"
  "boundValues (base_call b c) = boundValues c"
  by (simp_all add: base_call_def)






lemma setSelect_simps [simp]:
  "stmt (setSelect b c) = stmt c" "rInf (setSelect b c) = rInf c"
  "skipRow (setSelect b c) = skipRow c" "skippedStatus (setSelect b c) = skippedStatus c"
  "firstRow (setSelect b c) = firstRow c" "lastError (setSelect b c) = lastError c"
  by (simp_all add: setSelect_def)

lemma setActive_simps [simp]:
  "stmt (setActive b c) = stmt c" "rInf (setActive b c) = rInf c"
  "skipRow (setActive b c) = skipRow c" "skippedStatus (setActive b c) = skippedStatus c"
  "firstRow (setActive b c) = firstRow c" "lastError (setActive b c) = lastError c"
  by (simp_all add: setActive_def)









lemmas eval_defs =
  exec_def exec_lookahead_def fetchNext_def gotoNext_def begin_fetch_def initColumns_def
  column_field_def column_value_def vset_def get_values_def put_values_def
  setLastError_def setAt_def setActive_def setSelect_def base_call_def finalize_def
  call_step_def call_reset_def call_bind_def call_finalize_def call_close_def
  qMakeError_def QSqlError_new_def QSqlError_none_def QSqlField_new_def isValid_def
  scripted_def cursor0_def world0_def script0_def step_count_def bind_count_def
  SQLITE_OK_def SQLITE_ERROR_def SQLITE_BUSY_def SQLITE_CONSTRAINT_def SQLITE_MISUSE_def
  SQLITE_ROW_def SQLITE_DONE_def SQLITE_INTEGER_def SQLITE_FLOAT_def SQLITE_TEXT_def
  SQLITE_BLOB_def SQLITE_NULL_def BeforeFirstRow_def AfterLastRow_def
  qGetColumnType_def toLower_def toLower_char_def remove_char_def Let_def split_def


lemma exec_one_row_run: "\<exists>c1 w1. exec scripted (cursor0 (Some 0), world0 one_row) = Inr (True, c1, w1)
   \<and> firstRow c1 = [QLongLong 7] \<and> skippedStatus c1 \<and> calls w1 = [Reset (Some 0), Step (Some 0)]"
  by (simp add: eval_defs one_row_def)





section \<open>Refusals of prepare and execute\<close>

text \<open>
  C8, as the specification states it, fails: on a closed connection \<open>prepare\<close>
  returns false and leaves the cursor as it was; a cursor without an error still has
  none afterwards, so no statement error is recorded.
\<close>

theorem prepare_closed_counterexample:
  "prepare scripted (Some closed_driver) ''SELECT 1'' (cursor0 None, world0 script0)
     = (False, cursor0 None, world0 script0)
   \<and> errorType (lastError (fst (snd (prepare scripted (Some closed_driver) ''SELECT 1''
         (cursor0 None, world0 script0))))) \<noteq> StatementError"
  by (simp add: prepare_def cursor0_def QSqlError_none_def closed_driver_def)

text \<open>
  C8, amended. Every \<open>prepare\<close> call made without a driver, on a closed connection
  or on one in the open-error state returns false at once and changes nothing: the
  cursor, its last error included, and the engine are as before, and no engine call is
  made.
\<close>

theorem prepare_closed:
  "driver = None \<or> \<not> isOpen (the driver) \<or> isOpenError (the driver)
    \<longrightarrow> prepare E driver query (c, w) = (False, c, w)"
  by (simp add: prepare_def)

theorem prepare_closed_witness:
  "prepare scripted (Some closed_driver) ''SELECT 1'' (cursor0 None, world0 script0)
     = (False, cursor0 None, world0 script0)
   \<and> prepare scripted None ''SELECT 1'' (cursor0 None, world0 script0)
     = (False, cursor0 None, world0 script0)"
  using prepare_closed [of "Some closed_driver" scripted "''SELECT 1''" "cursor0 None" "world0 script0"]
    prepare_closed [of None scripted "''SELECT 1''" "cursor0 None" "world0 script0"]
  by (simp add: closed_driver_def)

text \<open>
  C4, as the specification states it, fails: the statement is reset before the
  parameter count is looked at, and when that reset fails the error of execute is
  the reset error, whatever the parameter counts are.
\<close>

theorem exec_parameter_count_counterexample:
  "sqlite3_bind_parameter_count scripted
      (snd (sqlite3_reset scripted (engine (world0 failing_reset)) (stmt (cursor0 (Some 0)))))
      (stmt (cursor0 (Some 0))) \<noteq> length (boundValues (cursor0 (Some 0)))
   \<and> (case exec scripted (cursor0 (Some 0), world0 failing_reset) of
        Inl x \<Rightarrow> False
      | Inr (ok, c', w') \<Rightarrow>
          \<not> ok \<and> driverText (lastError c') = ''Unable to reset statement''
          \<and> driverText (lastError c') \<noteq> ''Parameter count mismatch''
          \<and> driverText (lastError c') \<noteq> ''parameter count mismatch'')"
  by (simp add: eval_defs failing_reset_def)

text \<open>
  C4, amended. Every execute call where the number of supplied parameter values differs
  from the statement's placeholder count fails with a statement error and makes no
  bind call and no step call. When the reset of the statement succeeded, the error is
  the one built from the message Parameter count mismatch (passed through the
  translator), with an empty database text and code \<open>-1\<close>; the statement is kept and
  the reset is the only engine call. When the reset failed, the error carries the message
  Unable to reset statement and the statement is finalized.
\<close>

theorem exec_parameter_count_mismatch:
  "sqlite3_bind_parameter_count E (snd (sqlite3_reset E (engine w) (stmt c))) (stmt c)
      \<noteq> length (boundValues c) \<longrightarrow>
   (case exec E (c, w) of
      Inl x \<Rightarrow> False
    | Inr (ok, c', w') \<Rightarrow>
        \<not> ok \<and> errorType (lastError c') = StatementError
        \<and> bind_count w' = bind_count w \<and> step_count w' = step_count w
        \<and> (fst (sqlite3_reset E (engine w) (stmt c)) = SQLITE_OK \<longrightarrow>
             lastError c' =
               QSqlError_new (translate E ''SQLiteResult'' ''Parameter count mismatch'') []
                 StatementError (- 1)
             \<and> stmt c' = stmt c \<and> calls w' = calls w @ [Reset (stmt c)])
        \<and> (fst (sqlite3_reset E (engine w) (stmt c)) \<noteq> SQLITE_OK \<longrightarrow>
             driverText (lastError c') = translate E ''SQLiteResult'' ''Unable to reset statement''
             \<and> stmt c' = None))"
proof (cases "fst (sqlite3_reset E (engine w) (stmt c)) = SQLITE_OK")
  case True
  then show ?thesis
    by (simp add: exec_def Let_def split_def call_simps QSqlError_new_def
        bind_count_def step_count_def)
next
  case False
  let ?c0 = "setLastError
      (qMakeError E (snd (sqlite3_reset E (engine w) (stmt c))) (access c)
         (translate E ''SQLiteResult'' ''Unable to reset statement'') StatementError
         (fst (sqlite3_reset E (engine w) (stmt c))))
      (setLastError QSqlError_none (base_call Base_clearValues
               (c\<lparr>skippedStatus := False, skipRow := False, rInf := []\<rparr>)))"
  have "exec E (c, w) = Inr (False, finalize E (?c0, snd (call_reset E (stmt c) w)))"
    using False by (simp add: exec_def Let_def split_def call_simps)
  then show ?thesis
    using False finalize_cursor [of E ?c0 "snd (call_reset E (stmt c) w)"]
      finalize_counts [of E ?c0 "snd (call_reset E (stmt c) w)"]
    by (cases "finalize E (?c0, snd (call_reset E (stmt c) w))")
      (simp add: qMakeError_def QSqlError_new_def)
qed

theorem exec_parameter_count_mismatch_witness:
  "(case exec scripted (cursor0 (Some 0), world0 (script0\<lparr>placeholders := 2\<rparr>)) of
      Inl x \<Rightarrow> False
    | Inr (ok, c', w') \<Rightarrow>
        \<not> ok \<and> lastError c' = QSqlError_new ''Parameter count mismatch'' [] StatementError (- 1)
        \<and> bind_count w' = 0 \<and> calls w' = [Reset (Some 0)])
   \<and> (case exec scripted (cursor0 (Some 0), world0 failing_reset) of
        Inl x \<Rightarrow> False
      | Inr (ok, c', w') \<Rightarrow> \<not> ok \<and> errorType (lastError c') = StatementError \<and> bind_count w' = 0)"
proof -
  have h1: "sqlite3_bind_parameter_count scripted
      (snd (sqlite3_reset scripted (engine (world0 (script0\<lparr>placeholders := 2\<rparr>))) (stmt (cursor0 (Some 0)))))
      (stmt (cursor0 (Some 0))) \<noteq> length (boundValues (cursor0 (Some 0)))"
    "fst (sqlite3_reset scripted (engine (world0 (script0\<lparr>placeholders := 2\<rparr>))) (stmt (cursor0 (Some 0))))
       = SQLITE_OK"
    "bind_count (world0 (script0\<lparr>placeholders := 2\<rparr>)) = 0"
    "calls (world0 (script0\<lparr>placeholders := 2\<rparr>)) = []"
    "translate scripted ''SQLiteResult'' ''Parameter count mismatch'' = ''Parameter count mismatch''"
    "stmt (cursor0 (Some 0)) = Some 0"
    by (simp_all add: scripted_def world0_def script0_def cursor0_def SQLITE_OK_def bind_count_def)
  have h2: "sqlite3_bind_parameter_count scripted
      (snd (sqlite3_reset scripted (engine (world0 failing_reset)) (stmt (cursor0 (Some 0)))))
      (stmt (cursor0 (Some 0))) \<noteq> length (boundValues (cursor0 (Some 0)))"
    "bind_count (world0 failing_reset) = 0"
    by (simp_all add: scripted_def world0_def script0_def cursor0_def failing_reset_def bind_count_def)
  show ?thesis
    using exec_parameter_count_mismatch [of scripted "world0 (script0\<lparr>placeholders := 2\<rparr>)" "cursor0 (Some 0)"]
      exec_parameter_count_mismatch [of scripted "world0 failing_reset" "cursor0 (Some 0)"] h1 h2
    by (auto split: sum.splits)
qed

section \<open>Errors of a fetch\<close>

text \<open>
  C5, as the specification states it, fails: the error that \<open>fetchNext\<close> records
  when the step reports a generic engine error is a connection error, not a statement
  error.
\<close>

theorem fetchNext_error_counterexample:
  "\<not> skipRow (cursor0 (Some 0))
   \<and> fst (sqlite3_step scripted (engine (world0 failing_step)) (stmt (cursor0 (Some 0)))) = SQLITE_ERROR
   \<and> (case fetchNext scripted (Callers []) 0 False (cursor0 (Some 0), world0 failing_step) of
        Inl x \<Rightarrow> False
      | Inr (hasRow, vs, c', w') \<Rightarrow>
          \<not> hasRow \<and> errorType (lastError c') = ConnectionError
          \<and> errorType (lastError c') \<noteq> StatementError)"
  by (simp add: eval_defs failing_step_def)

text \<open>
  C5, amended. For every \<open>fetchNext\<close> call that steps the engine and gets a
  constraint violation or a generic engine error, the statement is reset after the step,
  the last error of the cursor becomes the error built from the engine's message after
  that reset, the message Unable to fetch row, the category connection error and the
  result code of the reset; the position becomes \<open>AfterLastRow\<close> and the call
  returns false. Every error path of a stepping \<open>fetchNext\<close> (no statement, or a step
  result other than row and done) returns false with a valid connection error as last
  error and the position \<open>AfterLastRow\<close>.
\<close>

theorem fetchNext_engine_error:
  "\<not> skipRow c \<longrightarrow>
   (stmt c \<noteq> None
      \<and> (fst (sqlite3_step E (engine w) (stmt c)) = SQLITE_CONSTRAINT
           \<or> fst (sqlite3_step E (engine w) (stmt c)) = SQLITE_ERROR) \<longrightarrow>
      (case fetchNext E vref idx initialFetch (c, w) of
         Inl x \<Rightarrow> False
       | Inr (hasRow, vs, c', w') \<Rightarrow>
           \<not> hasRow
           \<and> lastError c' =
               qMakeError E (engine w') (access c)
                 (translate E ''SQLiteResult'' ''Unable to fetch row'') ConnectionError
                 (fst (sqlite3_reset E (snd (sqlite3_step E (engine w) (stmt c))) (stmt c)))
           \<and> at c' = AfterLastRow
           \<and> calls w' = calls w @ [Step (stmt c), Reset (stmt c)]))
   \<and> (stmt c = None
        \<or> fst (sqlite3_step E (engine w) (stmt c)) \<notin> {SQLITE_ROW, SQLITE_DONE} \<longrightarrow>
      (case fetchNext E vref idx initialFetch (c, w) of
         Inl x \<Rightarrow> False
       | Inr (hasRow, vs, c', w') \<Rightarrow>
           \<not> hasRow \<and> isValid (lastError c') \<and> errorType (lastError c') = ConnectionError
           \<and> at c' = AfterLastRow))"
proof (intro impI conjI)
  assume ns: "\<not> skipRow c"
  assume "stmt c \<noteq> None
      \<and> (fst (sqlite3_step E (engine w) (stmt c)) = SQLITE_CONSTRAINT
           \<or> fst (sqlite3_step E (engine w) (stmt c)) = SQLITE_ERROR)"
  then obtain p where p: "stmt c = Some p"
    and rc: "fst (sqlite3_step E (engine w) (stmt c)) = SQLITE_CONSTRAINT
           \<or> fst (sqlite3_step E (engine w) (stmt c)) = SQLITE_ERROR"
    by auto
  show "case fetchNext E vref idx initialFetch (c, w) of
         Inl x \<Rightarrow> False
       | Inr (hasRow, vs, c', w') \<Rightarrow>
           \<not> hasRow
           \<and> lastError c' =
               qMakeError E (engine w') (access c)
                 (translate E ''SQLiteResult'' ''Unable to fetch row'') ConnectionError
                 (fst (sqlite3_reset E (snd (sqlite3_step E (engine w) (stmt c))) (stmt c)))
           \<and> at c' = AfterLastRow
           \<and> calls w' = calls w @ [Step (stmt c), Reset (stmt c)]"
    by (simp add: fetchNext_error [OF ns p rc] Let_def call_simps)
next
  assume ns: "\<not> skipRow c"
  assume h: "stmt c = None \<or> fst (sqlite3_step E (engine w) (stmt c)) \<notin> {SQLITE_ROW, SQLITE_DONE}"
  let ?goal = "case fetchNext E vref idx initialFetch (c, w) of
         Inl x \<Rightarrow> False
       | Inr (hasRow, vs, c', w') \<Rightarrow>
           \<not> hasRow \<and> isValid (lastError c') \<and> errorType (lastError c') = ConnectionError
           \<and> at c' = AfterLastRow"
  show ?goal
  proof (cases "stmt c")
    case None
    then show ?thesis
      by (simp add: fetchNext_no_query [OF ns None] Let_def isValid_def QSqlError_new_def)
  next
    case (Some p)
    with h have n: "fst (sqlite3_step E (engine w) (stmt c)) \<notin> {SQLITE_ROW, SQLITE_DONE}"
      by simp
    show ?thesis
    proof (cases "fst (sqlite3_step E (engine w) (stmt c)) = SQLITE_CONSTRAINT
           \<or> fst (sqlite3_step E (engine w) (stmt c)) = SQLITE_ERROR")
      case True
      then show ?thesis
        by (simp add: fetchNext_error [OF ns Some True] Let_def isValid_def qMakeError_def
            QSqlError_new_def)
    next
      case False
      with n have "fst (sqlite3_step E (engine w) (stmt c))
          \<notin> {SQLITE_ROW, SQLITE_DONE, SQLITE_CONSTRAINT, SQLITE_ERROR}"
        by simp
      then show ?thesis
        by (simp add: fetchNext_other [OF ns Some] Let_def isValid_def qMakeError_def
            QSqlError_new_def)
    qed
  qed
qed

theorem fetchNext_engine_error_witness:
  "(case fetchNext scripted (Callers []) 0 False (cursor0 (Some 0), world0 failing_step) of
      Inl x \<Rightarrow> False
    | Inr (hasRow, vs, c', w') \<Rightarrow>
        \<not> hasRow
        \<and> lastError c' = QSqlError_new ''Unable to fetch row'' ''engine message'' ConnectionError 0
        \<and> at c' = AfterLastRow \<and> calls w' = [Step (Some 0), Reset (Some 0)])
   \<and> (case fetchNext scripted (Callers []) 0 False (cursor0 None, world0 script0) of
        Inl x \<Rightarrow> False
      | Inr (hasRow, vs, c', w') \<Rightarrow> \<not> hasRow \<and> isValid (lastError c') \<and> at c' = AfterLastRow)"
proof -
  have h: "\<not> skipRow (cursor0 (Some 0))" "stmt (cursor0 (Some 0)) \<noteq> None"
    "fst (sqlite3_step scripted (engine (world0 failing_step)) (stmt (cursor0 (Some 0)))) = SQLITE_ERROR"
    "\<not> skipRow (cursor0 None)" "stmt (cursor0 None) = None"
    "calls (world0 failing_step) = []" "access (cursor0 (Some 0)) = Some 0"
    "stmt (cursor0 (Some 0)) = Some 0"
    by (simp_all add: cursor0_def world0_def scripted_def failing_step_def script0_def)
  have e: "\<And>e db. sqlite3_errmsg16 scripted e db = ''engine message''"
    "\<And>a b. translate scripted a b = b"
    "\<And>e p. sqlite3_reset scripted e p = (reset_code e, e)"
    "\<And>p. snd (sqlite3_step scripted failing_step p) = script0"
    "reset_code script0 = 0" "engine (world0 failing_step) = failing_step"
    by (simp_all add: scripted_def failing_step_def script0_def world0_def)
  show ?thesis
    using fetchNext_engine_error [of "cursor0 (Some 0)" scripted "world0 failing_step" "Callers []" 0 False]
      fetchNext_engine_error [of "cursor0 None" scripted "world0 script0" "Callers []" 0 False] h
    by (auto simp: e qMakeError_def split: sum.splits)
qed

section \<open>Columns of a result without rows\<close>

lemma column_field_empty:
  "column_field E e p True i = declared_field E e p i"
  by (simp add: column_field_def declared_field_def Let_def QSqlField_new_def
      SQLITE_INTEGER_def SQLITE_FLOAT_def SQLITE_BLOB_def SQLITE_TEXT_def)

lemma rInf_initColumns_empty:
  "rInf c = [] \<Longrightarrow>
     rInf (initColumns E e True c) = map (declared_field E e (stmt c)) [0..<sqlite3_column_count E e (stmt c)]"
  by (simp add: initColumns_def Let_def column_field_empty base_call_def)

lemma declared_field_storage_class:
  "declared_field (E\<lparr>sqlite3_column_type := f\<rparr>) e p i = declared_field E e p i"
  by (simp add: declared_field_def)

text \<open>
  C3. For every query whose first step reports that there are no rows, on a cursor
  whose columns are not populated yet, the fetch returns false, marks the position
  \<open>AfterLastRow\<close> and populates the columns from the declared type names alone: one descriptor per result column, of the type inferred from the declared
  name (invalid without one), each with the invalid marker \<open>-1\<close> as storage-class
  hint. The storage class is never consulted: replacing the engine's storage-class
  function by any other gives the same columns. With the declared types INTEGER and TEXT
  the columns have the types Integer and Text.
\<close>

theorem zero_rows_declared_types:
  "\<not> skipRow c \<and> stmt c \<noteq> None \<and> rInf c = []
     \<and> fst (sqlite3_step E (engine w) (stmt c)) = SQLITE_DONE \<longrightarrow>
   (case fetchNext E vref idx initialFetch (c, w) of
      Inl x \<Rightarrow> False
    | Inr (hasRow, vs, c', w') \<Rightarrow>
        \<not> hasRow \<and> at c' = AfterLastRow
        \<and> rInf c' =
            map (declared_field E (snd (sqlite3_step E (engine w) (stmt c))) (stmt c))
              [0..<sqlite3_column_count E (snd (sqlite3_step E (engine w) (stmt c))) (stmt c)]
        \<and> (\<forall>fld \<in> set (rInf c'). sqlType fld = - 1)
        \<and> map_sum id (\<lambda>r. rInf (fst (snd (snd r))))
             (fetchNext (E\<lparr>sqlite3_column_type := f\<rparr>) vref idx initialFetch (c, w))
           = Inr (rInf c'))"
proof
  assume h: "\<not> skipRow c \<and> stmt c \<noteq> None \<and> rInf c = []
     \<and> fst (sqlite3_step E (engine w) (stmt c)) = SQLITE_DONE"
  then obtain p where p: "stmt c = Some p" by auto
  from h have ns: "\<not> skipRow c" and e: "rInf c = []"
    and d: "fst (sqlite3_step E (engine w) (stmt c)) = SQLITE_DONE" by simp_all
  have d': "fst (sqlite3_step (E\<lparr>sqlite3_column_type := f\<rparr>) (engine w) (stmt c)) = SQLITE_DONE"
    using d by simp
  show "case fetchNext E vref idx initialFetch (c, w) of
      Inl x \<Rightarrow> False
    | Inr (hasRow, vs, c', w') \<Rightarrow>
        \<not> hasRow \<and> at c' = AfterLastRow
        \<and> rInf c' =
            map (declared_field E (snd (sqlite3_step E (engine w) (stmt c))) (stmt c))
              [0..<sqlite3_column_count E (snd (sqlite3_step E (engine w) (stmt c))) (stmt c)]
        \<and> (\<forall>fld \<in> set (rInf c'). sqlType fld = - 1)
        \<and> map_sum id (\<lambda>r. rInf (fst (snd (snd r))))
             (fetchNext (E\<lparr>sqlite3_column_type := f\<rparr>) vref idx initialFetch (c, w))
           = Inr (rInf c')"
    using e
    by (simp add: fetchNext_done [OF ns p d] fetchNext_done [OF ns p d'] Let_def call_simps
        rInf_initColumns_empty declared_field_storage_class)
      (simp add: declared_field_def)
qed

theorem zero_rows_declared_types_witness:
  "(case fetchNext scripted Own_firstRow 0 True (cursor0 (Some 0), world0 no_rows) of
      Inl x \<Rightarrow> False
    | Inr (hasRow, vs, c', w') \<Rightarrow>
        \<not> hasRow \<and> map fieldType (rInf c') = [QVariant_Int, QVariant_String]
        \<and> map sqlType (rInf c') = [- 1, - 1])"
proof -
  have h: "\<not> skipRow (cursor0 (Some 0)) \<and> stmt (cursor0 (Some 0)) \<noteq> None \<and> rInf (cursor0 (Some 0)) = []
     \<and> fst (sqlite3_step scripted (engine (world0 no_rows)) (stmt (cursor0 (Some 0)))) = SQLITE_DONE"
    by (simp add: cursor0_def world0_def scripted_def no_rows_def script0_def)
  have e: "snd (sqlite3_step scripted (engine (world0 no_rows)) (Some 0)) = no_rows"
    "stmt (cursor0 (Some 0)) = Some 0"
    "sqlite3_column_count scripted no_rows (Some 0) = 2"
    "map (fieldType \<circ> declared_field scripted no_rows (Some 0)) [0..<2] = [QVariant_Int, QVariant_String]"
    "map (sqlType \<circ> declared_field scripted no_rows (Some 0)) [0..<2] = [- 1, - 1]"
    by (simp_all add: cursor0_def world0_def scripted_def no_rows_def script0_def declared_field_def
        qGetColumnType_def toLower_def toLower_char_def upt_rec [of 0] upt_rec [of 1] upt_rec [of 2]
        upt_rec [of "Suc 0"])
  note t = zero_rows_declared_types [where c = "cursor0 (Some 0)" and E = scripted
        and w = "world0 no_rows" and vref = Own_firstRow and idx = 0 and initialFetch = True
        and f = "\<lambda>e p i. 0", rule_format, OF h]
  show ?thesis
    using t unfolding e
    by (cases "fetchNext scripted Own_firstRow 0 True (cursor0 (Some 0), world0 no_rows)")
      (simp_all add: split_def e)
qed

section \<open>Closing the connection\<close>






end
